theory Spec2Isabelle
  imports Main "HOL-Library.Word"
begin

section \<open>Data model of \<^verbatim>\<open>pkg/security/ebpf/c/rmdir.h\<close>\<close>

type_synonym u32 = "32 word"
type_synonym u64 = "64 word"

text \<open>
  Modelled from the spec: \<^verbatim>\<open>struct path_key_t\<close> is declared outside \<^verbatim>\<open>rmdir.h\<close>. It is
  the spec's ObjectIdentity, "{mount_id, inode_number, path_disambiguator}", under the
  field names \<^verbatim>\<open>rmdir.h\<close> reads and writes: \<^verbatim>\<open>mount_id\<close>, \<^verbatim>\<open>ino\<close>, \<^verbatim>\<open>path_id\<close>.
\<close>

record path_key_t =
  ino :: u64
  mount_id :: u32
  path_id :: u32

text \<open>
  Modelled from the spec: the syscall type constants \<^verbatim>\<open>SYSCALL_RMDIR\<close>,
  \<^verbatim>\<open>SYSCALL_UNLINK\<close> are declared outside \<^verbatim>\<open>rmdir.h\<close>. The spec gives a state a
  \<open>kind\<close> tag "one of {DirectoryRemoval, Unlink, ...}" and makes a kind mask a small set
  of such tags, so \<^verbatim>\<open>SYSCALL_RMDIR | SYSCALL_UNLINK\<close> is the list
  \<open>[SYSCALL_RMDIR, SYSCALL_UNLINK]\<close>.
\<close>

datatype syscall_type = SYSCALL_RMDIR | SYSCALL_UNLINK | SYSCALL_OTHER nat

text \<open>
  Modelled from the spec: the filter-mode enumeration is declared outside \<^verbatim>\<open>rmdir.h\<close>;
  the spec gives it as "NoFilter and one or more active-filter variants".
\<close>

datatype policy_mode = NO_FILTER | ACTIVE_FILTER nat

record policy_t =
  mode :: policy_mode

text \<open>
  Modelled from the spec: \<^verbatim>\<open>struct syscall_cache_t\<close> is declared outside \<^verbatim>\<open>rmdir.h\<close>.
  The spec's SyscallState has one \<open>kind\<close>, one \<open>identity\<close>, one \<open>overlay_depth\<close> and
  one \<open>filter_mode\<close>; the accesses \<^verbatim>\<open>syscall->rmdir.path_key\<close> and
  \<^verbatim>\<open>syscall->unlink.path_key\<close> of the source both denote \<open>path_key\<close>, and
  \<^verbatim>\<open>syscall->rmdir.overlay_numlower\<close> and \<^verbatim>\<open>syscall->unlink.overlay_numlower\<close>
  both denote \<open>overlay_numlower\<close>.
\<close>

record syscall_cache_t =
  policy :: policy_t
  type :: syscall_type
  path_key :: path_key_t
  overlay_numlower :: int

text \<open>Event kinds are \<^verbatim>\<open>u64\<close> values; \<open>0\<close> is "no event kind".\<close>

type_synonym event_type = u64

text \<open>
  Process and container context blocks and the process cache entry are filled by
  collaborators and only passed through here; they are opaque tokens.
\<close>

type_synonym process_context_t = nat
type_synonym container_context_t = nat
type_synonym proc_cache_t = nat

text \<open>
  Modelled from the spec: \<^verbatim>\<open>struct file_t\<close> is declared outside \<^verbatim>\<open>rmdir.h\<close>. It is the
  spec's "file: {inode_number, mount_id, overlay_depth, path_disambiguator}", the four
  fields initialised at lines 107-112 (\<^verbatim>\<open>inode\<close>, \<^verbatim>\<open>mount_id\<close>, \<^verbatim>\<open>overlay_numlower\<close>,
  \<^verbatim>\<open>path_id\<close>).
\<close>

record file_t =
  inode :: u64
  file_mount_id :: u32
  file_overlay_numlower :: int
  file_path_id :: u32

text \<open>
  \<^verbatim>\<open>struct rmdir_event_t\<close> (lines 6-14). \<open>syscall_retval\<close> is \<^verbatim>\<open>syscall.retval\<close>, the one
  field of \<^verbatim>\<open>struct syscall_t\<close> that \<^verbatim>\<open>rmdir.h\<close> sets. The \<^verbatim>\<open>event\<close> header is not
  written in \<^verbatim>\<open>rmdir.h\<close>; the kind of an event is the kind argument of \<^verbatim>\<open>send_event\<close>.
\<close>

record rmdir_event_t =
  process :: process_context_t
  container :: container_context_t
  syscall_retval :: int
  "file" :: file_t
  discarder_revision :: u32
  padding :: u32

text \<open>The registers a probe reads: \<^verbatim>\<open>PT_REGS_PARM2(ctx)\<close> and \<^verbatim>\<open>PT_REGS_RC(ctx)\<close>.\<close>

record pt_regs =
  PT_REGS_PARM2 :: u64
  PT_REGS_RC :: int

definition NULL :: u64 where
  "NULL = 0"

text \<open>
  The calls to collaborators that the probes make, in the order they are made.
\<close>

datatype call =
    Discarded_by_process policy_mode event_type
  | Invalidate_inode u32 u64 int
  | Resolve_dentry u64 path_key_t event_type
  | Is_event_enabled event_type
  | Send_event event_type rmdir_event_t

text \<open>
  The state the probes act on: the per-thread table of pending syscalls, the per-mount
  discarder revision counters, and the log of collaborator calls.
\<close>

record world =
  syscalls :: "u64 \<Rightarrow> syscall_cache_t option"
  discarder_revisions :: "u32 \<Rightarrow> u32"
  calls :: "call list"

text \<open>
  The constants, macros and helper functions that \<^verbatim>\<open>rmdir.h\<close> uses and that are
  declared elsewhere, taken as parameters. \<open>fetch_policy\<close> is the policy subsystem that
  populates the filter mode of a state at creation; \<open>set_path_key_inode dentry key 1\<close> is
  the path key after \<^verbatim>\<open>set_path_key_inode(dentry, &key, 1)\<close>; \<open>fill_process_context\<close>
  gives the process cache entry it returns and the process context it fills in.
  Functions that return a C \<^verbatim>\<open>int\<close> used as a truth value return an \<open>int\<close>, true when
  it is not 0.
\<close>

record env =
  EVENT_RMDIR :: event_type
  EVENT_UNLINK :: event_type
  DENTRY_DISCARDED :: int
  fetch_policy :: "event_type \<Rightarrow> policy_t"
  set_path_key_inode :: "u64 \<Rightarrow> path_key_t \<Rightarrow> int \<Rightarrow> path_key_t"
  get_overlay_numlower :: "u64 \<Rightarrow> int"
  discarded_by_process :: "policy_mode \<Rightarrow> event_type \<Rightarrow> int"
  resolve_dentry :: "u64 \<Rightarrow> path_key_t \<Rightarrow> event_type \<Rightarrow> int"
  IS_UNHANDLED_ERROR :: "int \<Rightarrow> bool"
  is_event_enabled :: "event_type \<Rightarrow> int"
  fill_process_context :: "u64 \<Rightarrow> proc_cache_t \<times> process_context_t"
  fill_container_context :: "proc_cache_t \<Rightarrow> container_context_t"

section \<open>The syscall registry\<close>

text \<open>
  Modelled from the spec: \<^verbatim>\<open>cache_syscall\<close>, \<^verbatim>\<open>peek_syscall\<close> and \<^verbatim>\<open>pop_syscall\<close>
  are defined outside \<^verbatim>\<open>rmdir.h\<close>. The spec's contract: the registry is keyed by thread
  identity; \<open>create\<close> fails if a state is already pending and the filter mode is populated
  by the policy subsystem at creation; \<open>peek\<close> returns the pending state if its kind is in
  the mask and leaves it in place; \<open>pop\<close> removes and returns it.
\<close>

definition cache_syscall :: "env \<Rightarrow> u64 \<Rightarrow> syscall_cache_t \<Rightarrow> event_type \<Rightarrow> world \<Rightarrow> world" where
  "cache_syscall e tid syscall event_type w =
     (case syscalls w tid of
        Some pending \<Rightarrow> w
      | None \<Rightarrow> w\<lparr>syscalls := (syscalls w)(tid \<mapsto> syscall\<lparr>policy := fetch_policy e event_type\<rparr>)\<rparr>)"

definition peek_syscall :: "u64 \<Rightarrow> syscall_type list \<Rightarrow> world \<Rightarrow> syscall_cache_t option" where
  "peek_syscall tid type_mask w =
     (case syscalls w tid of
        None \<Rightarrow> None
      | Some syscall \<Rightarrow> if type syscall \<in> set type_mask then Some syscall else None)"

definition pop_syscall :: "u64 \<Rightarrow> syscall_type list \<Rightarrow> world \<Rightarrow> syscall_cache_t option \<times> world" where
  "pop_syscall tid type_mask w =
     (case syscalls w tid of
        None \<Rightarrow> (None, w)
      | Some syscall \<Rightarrow>
          if type syscall \<in> set type_mask
          then (Some syscall, w\<lparr>syscalls := (syscalls w)(tid := None)\<rparr>)
          else (None, w))"

text \<open>
  A write through the pointer that \<^verbatim>\<open>peek_syscall\<close> returned updates the pending state
  in the table.
\<close>

definition store_syscall :: "u64 \<Rightarrow> syscall_cache_t \<Rightarrow> world \<Rightarrow> world" where
  "store_syscall tid syscall w = w\<lparr>syscalls := (syscalls w)(tid \<mapsto> syscall)\<rparr>"

section \<open>Collaborators with an effect\<close>

definition record_call :: "call \<Rightarrow> world \<Rightarrow> world" where
  "record_call c w = w\<lparr>calls := calls w @ [c]\<rparr>"

text \<open>
  Modelled from the spec: \<^verbatim>\<open>invalidate_inode\<close> is defined outside \<^verbatim>\<open>rmdir.h\<close>; the
  inode cache is an external collaborator, so an invalidation is the recorded call with
  its mount id, inode and flag.
\<close>

definition invalidate_inode :: "u32 \<Rightarrow> u64 \<Rightarrow> int \<Rightarrow> world \<Rightarrow> world" where
  "invalidate_inode mnt i flag w = record_call (Invalidate_inode mnt i flag) w"

text \<open>
  Modelled from the spec: \<^verbatim>\<open>bump_discarder_revision\<close> is defined outside \<^verbatim>\<open>rmdir.h\<close>.
  The spec: a counter scoped to the mount, \<open>bump_discarder_revision(mount_id) -> u32\<close>,
  the value attached to the event being "previous value + 1".
\<close>

definition bump_discarder_revision :: "u32 \<Rightarrow> world \<Rightarrow> u32 \<times> world" where
  "bump_discarder_revision mnt w =
     (let revision = discarder_revisions w mnt + 1
      in (revision, w\<lparr>discarder_revisions := (discarder_revisions w)(mnt := revision)\<rparr>))"

text \<open>
  Modelled from the spec: \<^verbatim>\<open>send_event\<close> is defined outside \<^verbatim>\<open>rmdir.h\<close>; the sink is
  an external collaborator, so sending is the recorded call with the kind and the record.
\<close>

definition send_event :: "event_type \<Rightarrow> rmdir_event_t \<Rightarrow> world \<Rightarrow> world" where
  "send_event kind event w = record_call (Send_event kind event) w"

section \<open>The three probes\<close>

text \<open>\<^verbatim>\<open>SYSCALL_KPROBE0(rmdir)\<close>, lines 16-24.\<close>

definition SYSCALL_KPROBE0_rmdir :: "env \<Rightarrow> u64 \<Rightarrow> world \<Rightarrow> int \<times> world" where
  "SYSCALL_KPROBE0_rmdir e tid w =
     (let syscall = \<lparr>policy = \<lparr>mode = NO_FILTER\<rparr>, type = SYSCALL_RMDIR,
                     path_key = \<lparr>ino = 0, mount_id = 0, path_id = 0\<rparr>,
                     overlay_numlower = 0\<rparr>
      in (0, cache_syscall e tid syscall (EVENT_RMDIR e) w))"

text \<open>
  The \<^verbatim>\<open>switch\<close> of lines 32-71. \<open>None\<close> is the early \<^verbatim>\<open>return 0\<close> of lines 41 and
  58; otherwise the result is \<^verbatim>\<open>event_type\<close>, \<^verbatim>\<open>key\<close>, \<^verbatim>\<open>dentry\<close> and the pending
  state as written through the pointer. A type that matches no \<^verbatim>\<open>case\<close> leaves the
  three locals at their initial values.
\<close>

definition resolve_switch ::
  "env \<Rightarrow> pt_regs \<Rightarrow> syscall_cache_t \<Rightarrow> (event_type \<times> path_key_t \<times> u64 \<times> syscall_cache_t) option" where
  "resolve_switch e ctx syscall =
     (case type syscall of
        SYSCALL_RMDIR \<Rightarrow>
          if ino (path_key syscall) \<noteq> 0 then None
          else
            let dentry = PT_REGS_PARM2 ctx;
                syscall1 = syscall\<lparr>path_key := set_path_key_inode e dentry (path_key syscall) 1\<rparr>;
                syscall2 = syscall1\<lparr>overlay_numlower := get_overlay_numlower e dentry\<rparr>
            in Some (EVENT_RMDIR e, path_key syscall2, dentry, syscall2)
      | SYSCALL_UNLINK \<Rightarrow>
          if ino (path_key syscall) \<noteq> 0 then None
          else
            let dentry = PT_REGS_PARM2 ctx;
                syscall1 = syscall\<lparr>path_key := set_path_key_inode e dentry (path_key syscall) 1\<rparr>;
                syscall2 = syscall1\<lparr>overlay_numlower := get_overlay_numlower e dentry\<rparr>
            in Some (EVENT_UNLINK e, path_key syscall2, dentry, syscall2)
      | SYSCALL_OTHER n \<Rightarrow>
          Some (0, \<lparr>ino = 0, mount_id = 0, path_id = 0\<rparr>, NULL, syscall))"

text \<open>\<^verbatim>\<open>kprobe__security_inode_rmdir\<close>, lines 26-89.\<close>

definition kprobe_security_inode_rmdir :: "env \<Rightarrow> pt_regs \<Rightarrow> u64 \<Rightarrow> world \<Rightarrow> int \<times> world" where
  "kprobe_security_inode_rmdir e ctx tid w =
     (case peek_syscall tid [SYSCALL_RMDIR, SYSCALL_UNLINK] w of
        None \<Rightarrow> (0, w)
      | Some syscall0 \<Rightarrow>
          (case resolve_switch e ctx syscall0 of
             None \<Rightarrow> (0, w)
           | Some (event_type, key, dentry, syscall) \<Rightarrow>
               let w1 = store_syscall tid syscall w;
                   w2 = record_call (Discarded_by_process (mode (policy syscall)) event_type) w1
               in
               if discarded_by_process e (mode (policy syscall)) event_type \<noteq> 0
               then (0, invalidate_inode (mount_id key) (ino key) 1 w2)
               else if dentry \<noteq> NULL
               then
                 let kind = (if mode (policy syscall) \<noteq> NO_FILTER then event_type else 0);
                     ret = resolve_dentry e dentry key kind;
                     w3 = record_call (Resolve_dentry dentry key kind) w2
                 in
                 if ret = DENTRY_DISCARDED e
                 then (0, snd (pop_syscall tid [type syscall]
                                  (invalidate_inode (mount_id key) (ino key) 1 w3)))
                 else (0, w3)
               else (0, w2)))"

text \<open>\<^verbatim>\<open>SYSCALL_KRETPROBE(rmdir)\<close>, lines 91-125.\<close>

definition SYSCALL_KRETPROBE_rmdir :: "env \<Rightarrow> pt_regs \<Rightarrow> u64 \<Rightarrow> world \<Rightarrow> int \<times> world" where
  "SYSCALL_KRETPROBE_rmdir e ctx tid w =
     (case pop_syscall tid [SYSCALL_RMDIR, SYSCALL_UNLINK] w of
        (None, w0) \<Rightarrow> (0, w)
      | (Some syscall, w1) \<Rightarrow>
          let retval = PT_REGS_RC ctx in
          if IS_UNHANDLED_ERROR e retval
          then (0, invalidate_inode (mount_id (path_key syscall)) (ino (path_key syscall)) 0 w1)
          else
            let enabled = is_event_enabled e (EVENT_RMDIR e);
                w2 = record_call (Is_event_enabled (EVENT_RMDIR e)) w1;
                w3 = (if enabled \<noteq> 0
                      then
                        let (revision, w2a) =
                              bump_discarder_revision (mount_id (path_key syscall)) w2;
                            event = \<lparr>process = 0, container = 0,
                                     syscall_retval = retval,
                                     file = \<lparr>inode = ino (path_key syscall),
                                             file_mount_id = mount_id (path_key syscall),
                                             file_overlay_numlower = overlay_numlower syscall,
                                             file_path_id = path_id (path_key syscall)\<rparr>,
                                     discarder_revision = revision,
                                     padding = 0\<rparr>;
                            (entry, proc) = fill_process_context e tid;
                            event1 = event\<lparr>process := proc\<rparr>;
                            event2 = event1\<lparr>container := fill_container_context e entry\<rparr>
                        in send_event (EVENT_RMDIR e) event2 w2a
                      else w2)
            in (0, invalidate_inode (mount_id (path_key syscall)) (ino (path_key syscall))
                     (if enabled \<noteq> 0 then 0 else 1) w3))"

section \<open>What a run leaves behind\<close>

text \<open>
  Projections of the call log, used to state what a probe did: the events sent to the
  sink, the inode cache invalidations with their flag, the path resolutions triggered,
  the evaluations of the process discard filter and the enablement checks.
\<close>

fun sent :: "call \<Rightarrow> (event_type \<times> rmdir_event_t) list" where
  "sent (Send_event kind event) = [(kind, event)]"
| "sent c = []"

fun invalidated :: "call \<Rightarrow> (u32 \<times> u64 \<times> int) list" where
  "invalidated (Invalidate_inode mnt i flag) = [(mnt, i, flag)]"
| "invalidated c = []"

fun resolved :: "call \<Rightarrow> (u64 \<times> path_key_t \<times> event_type) list" where
  "resolved (Resolve_dentry dentry key kind) = [(dentry, key, kind)]"
| "resolved c = []"

fun filter_checked :: "call \<Rightarrow> (policy_mode \<times> event_type) list" where
  "filter_checked (Discarded_by_process m kind) = [(m, kind)]"
| "filter_checked c = []"

fun enablement_checked :: "call \<Rightarrow> event_type list" where
  "enablement_checked (Is_event_enabled kind) = [kind]"
| "enablement_checked c = []"

definition events_sent :: "world \<Rightarrow> (event_type \<times> rmdir_event_t) list" where
  "events_sent w = concat (map sent (calls w))"

definition invalidations :: "world \<Rightarrow> (u32 \<times> u64 \<times> int) list" where
  "invalidations w = concat (map invalidated (calls w))"

definition path_resolutions :: "world \<Rightarrow> (u64 \<times> path_key_t \<times> event_type) list" where
  "path_resolutions w = concat (map resolved (calls w))"

definition filter_checks :: "world \<Rightarrow> (policy_mode \<times> event_type) list" where
  "filter_checks w = concat (map filter_checked (calls w))"

definition enablement_checks :: "world \<Rightarrow> event_type list" where
  "enablement_checks w = concat (map enablement_checked (calls w))"

text \<open>
  Sequences of probe invocations: each step names the collaborators in force, the
  calling thread and the probe that fires. \<open>event_revisions mnt events\<close> lists, in the
  order of emission, the discarder revisions attached to those of \<open>events\<close> that are for
  mount \<open>mnt\<close>. \<open>no_wrap mnt ps w\<close>: running \<open>ps\<close> from \<open>w\<close>, no invocation moves the
  counter of \<open>mnt\<close> away from its maximum, that is, the counter never wraps around.
\<close>

datatype probe = Entry | Hook pt_regs | Return pt_regs

definition fire :: "env \<Rightarrow> u64 \<Rightarrow> probe \<Rightarrow> world \<Rightarrow> world" where
  "fire e tid p w =
     (case p of
        Entry \<Rightarrow> snd (SYSCALL_KPROBE0_rmdir e tid w)
      | Hook ctx \<Rightarrow> snd (kprobe_security_inode_rmdir e ctx tid w)
      | Return ctx \<Rightarrow> snd (SYSCALL_KRETPROBE_rmdir e ctx tid w))"



fun no_wrap :: "u32 \<Rightarrow> (env \<times> u64 \<times> probe) list \<Rightarrow> world \<Rightarrow> bool" where
  "no_wrap mnt [] w = True"
| "no_wrap mnt ((e, tid, p) # ps) w =
     ((discarder_revisions w mnt = - 1 \<longrightarrow> discarder_revisions (fire e tid p w) mnt = - 1) \<and>
      no_wrap mnt ps (fire e tid p w))"

section \<open>Concrete scenarios\<close>

text \<open>
  \<open>env_A\<close>: no filter, nothing discards, every event kind enabled, negative return codes
  are unhandled errors, the inode number of a handle is the handle's value.
  \<open>env_B\<close>: an active filter whose process discard rule matches.
  \<open>env_off\<close>: as \<open>env_A\<close> with the event kind disabled.
\<close>

definition env_A :: env where
  "env_A = \<lparr>EVENT_RMDIR = 6, EVENT_UNLINK = 5, DENTRY_DISCARDED = - 1,
     fetch_policy = (\<lambda>kind. \<lparr>mode = NO_FILTER\<rparr>),
     set_path_key_inode = (\<lambda>dentry key invalidate. key\<lparr>ino := dentry, path_id := 1\<rparr>),
     get_overlay_numlower = (\<lambda>dentry. 0),
     discarded_by_process = (\<lambda>m kind. 0),
     resolve_dentry = (\<lambda>dentry key kind. 0),
     IS_UNHANDLED_ERROR = (\<lambda>retval. retval < 0),
     is_event_enabled = (\<lambda>kind. 1),
     fill_process_context = (\<lambda>tid. (0, 0)),
     fill_container_context = (\<lambda>entry. 0)\<rparr>"

definition env_B :: env where
  "env_B = env_A\<lparr>fetch_policy := (\<lambda>kind. \<lparr>mode = ACTIVE_FILTER 1\<rparr>),
     discarded_by_process := (\<lambda>m kind. if m = NO_FILTER then 0 else 1)\<rparr>"

definition env_off :: env where
  "env_off = env_A\<lparr>is_event_enabled := (\<lambda>kind. 0)\<rparr>"

text \<open>
  \<open>world0\<close> has no pending syscall; \<open>world_A\<close> has a resolved directory removal of
  \<open>(mount 5, inode 100)\<close> pending on thread 7, \<open>world_unlink\<close> a resolved unlink of
  \<open>(mount 5, inode 200)\<close>, \<open>world_fresh\<close> an unlink whose identity is still unset;
  \<open>world_high\<close> has every revision counter two steps below its maximum and
  \<open>world_wrap\<close> one step below.
\<close>

definition world0 :: world where
  "world0 = \<lparr>syscalls = (\<lambda>tid. None), discarder_revisions = (\<lambda>mnt. 0), calls = []\<rparr>"

definition pending_A :: syscall_cache_t where
  "pending_A = \<lparr>policy = \<lparr>mode = NO_FILTER\<rparr>, type = SYSCALL_RMDIR,
     path_key = \<lparr>ino = 100, mount_id = 5, path_id = 1\<rparr>, overlay_numlower = 0\<rparr>"

definition world_A :: world where
  "world_A = \<lparr>syscalls = (\<lambda>tid. None)(7 \<mapsto> pending_A), discarder_revisions = (\<lambda>mnt. 0),
     calls = []\<rparr>"

definition pending_unlink :: syscall_cache_t where
  "pending_unlink = \<lparr>policy = \<lparr>mode = NO_FILTER\<rparr>, type = SYSCALL_UNLINK,
     path_key = \<lparr>ino = 200, mount_id = 5, path_id = 1\<rparr>, overlay_numlower = 2\<rparr>"

definition world_unlink :: world where
  "world_unlink = \<lparr>syscalls = (\<lambda>tid. None)(7 \<mapsto> pending_unlink),
     discarder_revisions = (\<lambda>mnt. 0), calls = []\<rparr>"

definition pending_fresh :: syscall_cache_t where
  "pending_fresh = \<lparr>policy = \<lparr>mode = ACTIVE_FILTER 1\<rparr>, type = SYSCALL_UNLINK,
     path_key = \<lparr>ino = 0, mount_id = 5, path_id = 0\<rparr>, overlay_numlower = 0\<rparr>"

definition world_fresh :: world where
  "world_fresh = \<lparr>syscalls = (\<lambda>tid. None)(7 \<mapsto> pending_fresh),
     discarder_revisions = (\<lambda>mnt. 0), calls = []\<rparr>"



definition ctx_ok :: pt_regs where
  "ctx_ok = \<lparr>PT_REGS_PARM2 = 100, PT_REGS_RC = 0\<rparr>"

definition ctx_err :: pt_regs where
  "ctx_err = \<lparr>PT_REGS_PARM2 = 100, PT_REGS_RC = - 2\<rparr>"


section \<open>Basic facts\<close>

lemmas registry_defs = cache_syscall_def peek_syscall_def pop_syscall_def store_syscall_def

lemmas effect_defs = record_call_def invalidate_inode_def bump_discarder_revision_def send_event_def
  Let_def

lemmas observation_defs = events_sent_def invalidations_def path_resolutions_def
  filter_checks_def enablement_checks_def

lemmas probe_defs = SYSCALL_KPROBE0_rmdir_def kprobe_security_inode_rmdir_def
  SYSCALL_KRETPROBE_rmdir_def resolve_switch_def NULL_def

lemmas fixture_defs = env_A_def env_B_def env_off_def world0_def pending_A_def world_A_def
  ctx_ok_def ctx_err_def

lemma pop_syscall_Some:
  assumes "pop_syscall tid ks w = (Some syscall, w1)"
  shows "syscalls w tid = Some syscall \<and> type syscall \<in> set ks \<and>
         w1 = w\<lparr>syscalls := (syscalls w)(tid := None)\<rparr>"
  using assms by (auto simp: pop_syscall_def split: option.splits if_splits)

lemma peek_syscall_Some:
  assumes "peek_syscall tid ks w = Some syscall"
  shows "syscalls w tid = Some syscall \<and> type syscall \<in> set ks"
  using assms by (auto simp: peek_syscall_def split: option.splits if_splits)

lemma pop_stored:
  assumes "syscalls w tid = None"
    and "type syscall = SYSCALL_RMDIR \<or> type syscall = SYSCALL_UNLINK"
  shows "pop_syscall tid [SYSCALL_RMDIR, SYSCALL_UNLINK] (store_syscall tid syscall w) =
      (Some syscall, w)"
proof -
  have "(syscalls w)(tid := None) = syscalls w"
    using assms(1) by (simp add: fun_upd_idem)
  then show ?thesis
    using assms(2) by (auto simp: pop_syscall_def store_syscall_def)
qed

lemma kprobe0_created:
  assumes "syscalls w tid = None"
  shows "snd (SYSCALL_KPROBE0_rmdir e tid w) =
      store_syscall tid
        \<lparr>policy = fetch_policy e (EVENT_RMDIR e), type = SYSCALL_RMDIR,
         path_key = \<lparr>ino = 0, mount_id = 0, path_id = 0\<rparr>, overlay_numlower = 0\<rparr> w"
  using assms by (simp add: SYSCALL_KPROBE0_rmdir_def cache_syscall_def store_syscall_def)

text \<open>The three outcomes of the return probe once a state was popped, and the fourth.\<close>

lemma kretprobe_none:
  assumes "pop_syscall tid [SYSCALL_RMDIR, SYSCALL_UNLINK] w = (None, w1)"
  shows "SYSCALL_KRETPROBE_rmdir e ctx tid w = (0, w)"
  using assms by (simp add: SYSCALL_KRETPROBE_rmdir_def)

lemma kretprobe_error:
  assumes "pop_syscall tid [SYSCALL_RMDIR, SYSCALL_UNLINK] w = (Some syscall, w1)"
    and "IS_UNHANDLED_ERROR e (PT_REGS_RC ctx)"
  shows "snd (SYSCALL_KRETPROBE_rmdir e ctx tid w) =
      invalidate_inode (mount_id (path_key syscall)) (ino (path_key syscall)) 0 w1"
  using assms by (simp add: SYSCALL_KRETPROBE_rmdir_def)

lemma kretprobe_disabled:
  assumes "pop_syscall tid [SYSCALL_RMDIR, SYSCALL_UNLINK] w = (Some syscall, w1)"
    and "\<not> IS_UNHANDLED_ERROR e (PT_REGS_RC ctx)"
    and "is_event_enabled e (EVENT_RMDIR e) = 0"
  shows "snd (SYSCALL_KRETPROBE_rmdir e ctx tid w) =
      invalidate_inode (mount_id (path_key syscall)) (ino (path_key syscall)) 1
        (record_call (Is_event_enabled (EVENT_RMDIR e)) w1)"
  using assms by (simp add: SYSCALL_KRETPROBE_rmdir_def)

lemma kretprobe_enabled:
  assumes "pop_syscall tid [SYSCALL_RMDIR, SYSCALL_UNLINK] w = (Some syscall, w1)"
    and "\<not> IS_UNHANDLED_ERROR e (PT_REGS_RC ctx)"
    and "is_event_enabled e (EVENT_RMDIR e) \<noteq> 0"
  shows "snd (SYSCALL_KRETPROBE_rmdir e ctx tid w) =
      invalidate_inode (mount_id (path_key syscall)) (ino (path_key syscall)) 0
        (send_event (EVENT_RMDIR e)
           \<lparr>process = snd (fill_process_context e tid),
            container = fill_container_context e (fst (fill_process_context e tid)),
            syscall_retval = PT_REGS_RC ctx,
            file = \<lparr>inode = ino (path_key syscall),
                    file_mount_id = mount_id (path_key syscall),
                    file_overlay_numlower = overlay_numlower syscall,
                    file_path_id = path_id (path_key syscall)\<rparr>,
            discarder_revision = discarder_revisions w (mount_id (path_key syscall)) + 1,
            padding = 0\<rparr>
           (snd (bump_discarder_revision (mount_id (path_key syscall))
                   (record_call (Is_event_enabled (EVENT_RMDIR e)) w1))))"
  using assms pop_syscall_Some [OF assms(1)]
  by (simp add: SYSCALL_KRETPROBE_rmdir_def Let_def bump_discarder_revision_def
      record_call_def split: prod.split)

section \<open>Exactly-once emission\<close>

lemma kprobe_kept:
  assumes pending: "syscalls w tid = Some syscall"
    and ty: "type syscall = SYSCALL_RMDIR"
    and fresh: "ino (path_key syscall) = 0"
    and filter_keeps: "discarded_by_process e (mode (policy syscall)) (EVENT_RMDIR e) = 0"
    and path_keeps: "resolve_dentry e (PT_REGS_PARM2 ctx)
        (set_path_key_inode e (PT_REGS_PARM2 ctx) (path_key syscall) 1)
        (if mode (policy syscall) = NO_FILTER then 0 else EVENT_RMDIR e) \<noteq> DENTRY_DISCARDED e"
  shows "syscalls (snd (kprobe_security_inode_rmdir e ctx tid w)) tid =
           Some (syscall\<lparr>path_key := set_path_key_inode e (PT_REGS_PARM2 ctx) (path_key syscall) 1,
                         overlay_numlower := get_overlay_numlower e (PT_REGS_PARM2 ctx)\<rparr>) \<and>
         events_sent (snd (kprobe_security_inode_rmdir e ctx tid w)) = events_sent w \<and>
         invalidations (snd (kprobe_security_inode_rmdir e ctx tid w)) = invalidations w \<and>
         discarder_revisions (snd (kprobe_security_inode_rmdir e ctx tid w)) = discarder_revisions w"
  using assms
  by (cases "mode (policy syscall) = NO_FILTER")
    (simp_all add: kprobe_security_inode_rmdir_def resolve_switch_def registry_defs
      effect_defs observation_defs)

text \<open>
  C1. One thread runs \<^verbatim>\<open>SYSCALL_KPROBE0(rmdir)\<close>, then
  \<^verbatim>\<open>kprobe__security_inode_rmdir\<close>, then \<^verbatim>\<open>SYSCALL_KRETPROBE(rmdir)\<close> for one tracked
  directory removal (the entry created the state: no other syscall was pending on the
  thread). If the process discard filter does not discard, path resolution does not
  report a discard, the return code is not an unhandled error and the event kind is
  enabled, then exactly one event is sent over the whole sequence: none by the first two
  probes, one by the third.
\<close>

theorem exactly_once_emission:
  assumes tracked: "syscalls w tid = None"
    and w1: "w1 = snd (SYSCALL_KPROBE0_rmdir e tid w)"
    and w2: "w2 = snd (kprobe_security_inode_rmdir e ctx tid w1)"
    and w3: "w3 = snd (SYSCALL_KRETPROBE_rmdir e ctx' tid w2)"
    and filter_keeps:
      "discarded_by_process e (mode (fetch_policy e (EVENT_RMDIR e))) (EVENT_RMDIR e) = 0"
    and path_keeps:
      "resolve_dentry e (PT_REGS_PARM2 ctx)
         (set_path_key_inode e (PT_REGS_PARM2 ctx) \<lparr>ino = 0, mount_id = 0, path_id = 0\<rparr> 1)
         (if mode (fetch_policy e (EVENT_RMDIR e)) = NO_FILTER then 0 else EVENT_RMDIR e)
       \<noteq> DENTRY_DISCARDED e"
    and success: "\<not> IS_UNHANDLED_ERROR e (PT_REGS_RC ctx')"
    and enabled: "is_event_enabled e (EVENT_RMDIR e) \<noteq> 0"
  shows "events_sent w1 = events_sent w \<and> events_sent w2 = events_sent w \<and>
         (\<exists>event. events_sent w3 = events_sent w @ [(EVENT_RMDIR e, event)])"
proof -
  let ?fresh = "\<lparr>policy = fetch_policy e (EVENT_RMDIR e), type = SYSCALL_RMDIR,
                  path_key = \<lparr>ino = 0, mount_id = 0, path_id = 0\<rparr>, overlay_numlower = 0\<rparr>"
  have w1': "w1 = store_syscall tid ?fresh w"
    unfolding w1 by (rule kprobe0_created [OF tracked])
  have sent1: "events_sent w1 = events_sent w"
    unfolding w1' by (simp add: store_syscall_def observation_defs)
  have pending1: "syscalls w1 tid = Some ?fresh"
    unfolding w1' by (simp add: store_syscall_def)
  have kept: "syscalls w2 tid =
        Some (?fresh\<lparr>path_key := set_path_key_inode e (PT_REGS_PARM2 ctx) (path_key ?fresh) 1,
                     overlay_numlower := get_overlay_numlower e (PT_REGS_PARM2 ctx)\<rparr>) \<and>
      events_sent w2 = events_sent w1 \<and> invalidations w2 = invalidations w1 \<and>
      discarder_revisions w2 = discarder_revisions w1"
    unfolding w2 using filter_keeps path_keeps
    by (intro kprobe_kept [OF pending1]) simp_all
  then obtain syscall2 where pending2: "syscalls w2 tid = Some syscall2"
    and ty2: "type syscall2 = SYSCALL_RMDIR" and sent2: "events_sent w2 = events_sent w1"
    by simp
  have popped: "pop_syscall tid [SYSCALL_RMDIR, SYSCALL_UNLINK] w2 =
      (Some syscall2, w2\<lparr>syscalls := (syscalls w2)(tid := None)\<rparr>)"
    using pending2 ty2 by (simp add: pop_syscall_def)
  have "\<exists>event. events_sent w3 = events_sent w2 @ [(EVENT_RMDIR e, event)]"
    unfolding w3 kretprobe_enabled [OF popped success enabled]
    by (simp add: effect_defs observation_defs)
  with sent1 sent2 show ?thesis by simp
qed

theorem exactly_once_emission_witness:
  "syscalls world0 7 = None \<and>
   discarded_by_process env_A (mode (fetch_policy env_A (EVENT_RMDIR env_A))) (EVENT_RMDIR env_A) = 0 \<and>
   resolve_dentry env_A 100 \<lparr>ino = 100, mount_id = 0, path_id = 1\<rparr> 0 \<noteq> DENTRY_DISCARDED env_A \<and>
   \<not> IS_UNHANDLED_ERROR env_A (PT_REGS_RC ctx_ok) \<and>
   is_event_enabled env_A (EVENT_RMDIR env_A) \<noteq> 0 \<and>
   length (events_sent (snd (SYSCALL_KRETPROBE_rmdir env_A ctx_ok 7
     (snd (kprobe_security_inode_rmdir env_A ctx_ok 7
       (snd (SYSCALL_KPROBE0_rmdir env_A 7 world0))))))) = 1"
proof -
  have tracked: "syscalls world0 7 = None"
    by (simp add: world0_def)
  have filter_keeps: "discarded_by_process env_A (mode (fetch_policy env_A (EVENT_RMDIR env_A)))
      (EVENT_RMDIR env_A) = 0"
    by (simp add: env_A_def)
  have path_keeps: "resolve_dentry env_A (PT_REGS_PARM2 ctx_ok)
         (set_path_key_inode env_A (PT_REGS_PARM2 ctx_ok) \<lparr>ino = 0, mount_id = 0, path_id = 0\<rparr> 1)
         (if mode (fetch_policy env_A (EVENT_RMDIR env_A)) = NO_FILTER then 0 else EVENT_RMDIR env_A)
       \<noteq> DENTRY_DISCARDED env_A"
    by (simp add: env_A_def)
  have success: "\<not> IS_UNHANDLED_ERROR env_A (PT_REGS_RC ctx_ok)"
    by (simp add: env_A_def ctx_ok_def)
  have enabled: "is_event_enabled env_A (EVENT_RMDIR env_A) \<noteq> 0"
    by (simp add: env_A_def)
  have facts: "events_sent world0 = []"
    "resolve_dentry env_A 100 \<lparr>ino = 100, mount_id = 0, path_id = 1\<rparr> 0 \<noteq> DENTRY_DISCARDED env_A"
    by (simp_all add: world0_def env_A_def observation_defs)
  show ?thesis
    using exactly_once_emission [OF tracked refl refl refl filter_keeps path_keeps success enabled]
      tracked filter_keeps success enabled
    by (auto simp: facts)
qed

section \<open>Discard in the resolution probe\<close>

text \<open>
  When path resolution reports a discard (lines 81-85), the inode cache is invalidated
  once with flag 1, the pending state is popped, and the return probe that follows finds
  nothing and does nothing.
\<close>

lemma path_discard_short_circuits:
  assumes peeked: "peek_syscall tid [SYSCALL_RMDIR, SYSCALL_UNLINK] w = Some syscall"
    and fresh: "ino (path_key syscall) = 0"
    and kind: "kind = (if type syscall = SYSCALL_RMDIR then EVENT_RMDIR e else EVENT_UNLINK e)"
    and key: "key = set_path_key_inode e (PT_REGS_PARM2 ctx) (path_key syscall) 1"
    and kept: "discarded_by_process e (mode (policy syscall)) kind = 0"
    and handle: "PT_REGS_PARM2 ctx \<noteq> NULL"
    and discards: "resolve_dentry e (PT_REGS_PARM2 ctx) key
        (if mode (policy syscall) = NO_FILTER then 0 else kind) = DENTRY_DISCARDED e"
  shows "syscalls (snd (kprobe_security_inode_rmdir e ctx tid w)) tid = None \<and>
         invalidations (snd (kprobe_security_inode_rmdir e ctx tid w)) =
           invalidations w @ [(mount_id key, ino key, 1)] \<and>
         SYSCALL_KRETPROBE_rmdir e ctx' tid (snd (kprobe_security_inode_rmdir e ctx tid w)) =
           (0, snd (kprobe_security_inode_rmdir e ctx tid w))"
proof -
  have ty: "type syscall = SYSCALL_RMDIR \<or> type syscall = SYSCALL_UNLINK"
    using peek_syscall_Some [OF peeked] by simp
  have gone: "syscalls (snd (kprobe_security_inode_rmdir e ctx tid w)) tid = None \<and>
         invalidations (snd (kprobe_security_inode_rmdir e ctx tid w)) =
           invalidations w @ [(mount_id key, ino key, 1)]"
    using ty
  proof
    assume rmdir: "type syscall = SYSCALL_RMDIR"
    show ?thesis
      using peeked fresh kept handle rmdir discards unfolding kind key
      by (cases "mode (policy syscall) = NO_FILTER")
        (simp_all add: kprobe_security_inode_rmdir_def resolve_switch_def pop_syscall_def
          store_syscall_def effect_defs observation_defs)
  next
    assume unlink: "type syscall = SYSCALL_UNLINK"
    show ?thesis
      using peeked fresh kept handle unlink discards unfolding kind key
      by (cases "mode (policy syscall) = NO_FILTER")
        (simp_all add: kprobe_security_inode_rmdir_def resolve_switch_def pop_syscall_def
          store_syscall_def effect_defs observation_defs)
  qed
  then have "pop_syscall tid [SYSCALL_RMDIR, SYSCALL_UNLINK]
      (snd (kprobe_security_inode_rmdir e ctx tid w)) =
      (None, snd (kprobe_security_inode_rmdir e ctx tid w))"
    by (simp add: pop_syscall_def)
  then have "SYSCALL_KRETPROBE_rmdir e ctx' tid (snd (kprobe_security_inode_rmdir e ctx tid w)) =
      (0, snd (kprobe_security_inode_rmdir e ctx tid w))"
    by (rule kretprobe_none)
  with gone show ?thesis by simp
qed

text \<open>
  C2. The claim asks the same of a discard by the process filter. The source does not
  do it: lines 73-77 invalidate and return without \<^verbatim>\<open>pop_syscall\<close>, unlike the sibling
  branch at line 84. With \<open>env_B\<close> on an empty table, after entry and resolution the
  state is still pending; the return probe pops it, sends an event and invalidates the
  same inode a second time.
\<close>

theorem process_discard_keeps_state:
  "syscalls (snd (kprobe_security_inode_rmdir env_B ctx_ok 7
      (snd (SYSCALL_KPROBE0_rmdir env_B 7 world0)))) 7 =
     Some \<lparr>policy = \<lparr>mode = ACTIVE_FILTER 1\<rparr>, type = SYSCALL_RMDIR,
           path_key = \<lparr>ino = 100, mount_id = 0, path_id = 1\<rparr>, overlay_numlower = 0\<rparr> \<and>
   calls (snd (SYSCALL_KRETPROBE_rmdir env_B ctx_ok 7
      (snd (kprobe_security_inode_rmdir env_B ctx_ok 7
        (snd (SYSCALL_KPROBE0_rmdir env_B 7 world0)))))) =
     [Discarded_by_process (ACTIVE_FILTER 1) 6,
      Invalidate_inode 0 100 1,
      Is_event_enabled 6,
      Send_event 6
        \<lparr>process = 0, container = 0, syscall_retval = 0,
         file = \<lparr>inode = 100, file_mount_id = 0, file_overlay_numlower = 0, file_path_id = 1\<rparr>,
         discarder_revision = 1, padding = 0\<rparr>,
      Invalidate_inode 0 100 0]"
  by (simp add: probe_defs registry_defs effect_defs fixture_defs)

section \<open>Idempotent resolution\<close>

lemma sentinel_guard:
  assumes peeked: "peek_syscall tid [SYSCALL_RMDIR, SYSCALL_UNLINK] w = Some syscall"
    and frozen: "ino (path_key syscall) \<noteq> 0"
  shows "kprobe_security_inode_rmdir e ctx tid w = (0, w)"
proof -
  have "type syscall = SYSCALL_RMDIR \<or> type syscall = SYSCALL_UNLINK"
    using peek_syscall_Some [OF peeked] by simp
  then have "resolve_switch e ctx syscall = None"
    using frozen by (auto simp: resolve_switch_def)
  then show ?thesis
    using peeked by (simp add: kprobe_security_inode_rmdir_def)
qed

lemma resolution_twice:
  assumes resolves: "\<And>key. ino (set_path_key_inode e (PT_REGS_PARM2 ctx) key 1) \<noteq> 0"
  shows "kprobe_security_inode_rmdir e ctx' tid (snd (kprobe_security_inode_rmdir e ctx tid w)) =
           (0, snd (kprobe_security_inode_rmdir e ctx tid w))"
proof (cases "peek_syscall tid [SYSCALL_RMDIR, SYSCALL_UNLINK] w")
  case None
  then show ?thesis by (simp add: kprobe_security_inode_rmdir_def)
next
  case (Some syscall)
  note pending = peek_syscall_Some [OF Some]
  show ?thesis
  proof (cases "ino (path_key syscall) = 0")
    case False
    show ?thesis
      using sentinel_guard [OF Some False] by simp
  next
    case True
    have ty: "type syscall = SYSCALL_RMDIR \<or> type syscall = SYSCALL_UNLINK"
      using pending by simp
    show ?thesis
      using ty True resolves Some pending
      by (auto simp: kprobe_security_inode_rmdir_def resolve_switch_def registry_defs
          effect_defs)
  qed
qed

text \<open>
  C3. When the pending state peeked by \<^verbatim>\<open>kprobe__security_inode_rmdir\<close> already has a
  non-zero inode, the probe returns at once and changes nothing: the stored identity and
  overlay depth are as before, the discard filter is not evaluated again and path
  resolution is not triggered again. Running the probe twice is running it once: whenever
  the first run resolves a non-zero inode, a second run on its result changes nothing.
\<close>

theorem frozen_identity_returns_immediately:
  "(peek_syscall tid [SYSCALL_RMDIR, SYSCALL_UNLINK] w = Some syscall \<and>
    ino (path_key syscall) \<noteq> 0 \<longrightarrow>
      kprobe_security_inode_rmdir e ctx tid w = (0, w) \<and>
      syscalls (snd (kprobe_security_inode_rmdir e ctx tid w)) tid = Some syscall \<and>
      filter_checks (snd (kprobe_security_inode_rmdir e ctx tid w)) = filter_checks w \<and>
      path_resolutions (snd (kprobe_security_inode_rmdir e ctx tid w)) = path_resolutions w) \<and>
   ((\<forall>key. ino (set_path_key_inode e (PT_REGS_PARM2 ctx) key 1) \<noteq> 0) \<longrightarrow>
      kprobe_security_inode_rmdir e ctx' tid (snd (kprobe_security_inode_rmdir e ctx tid w0)) =
        (0, snd (kprobe_security_inode_rmdir e ctx tid w0)))"
proof (intro conjI impI)
  assume a: "peek_syscall tid [SYSCALL_RMDIR, SYSCALL_UNLINK] w = Some syscall \<and>
    ino (path_key syscall) \<noteq> 0"
  then have peeked: "peek_syscall tid [SYSCALL_RMDIR, SYSCALL_UNLINK] w = Some syscall"
    and frozen: "ino (path_key syscall) \<noteq> 0"
    by simp_all
  note same = sentinel_guard [OF peeked frozen, of e ctx]
  show "kprobe_security_inode_rmdir e ctx tid w = (0, w)"
    by (rule same)
  show "syscalls (snd (kprobe_security_inode_rmdir e ctx tid w)) tid = Some syscall"
    unfolding same using peek_syscall_Some [OF peeked] by simp
  show "filter_checks (snd (kprobe_security_inode_rmdir e ctx tid w)) = filter_checks w"
    unfolding same by simp
  show "path_resolutions (snd (kprobe_security_inode_rmdir e ctx tid w)) = path_resolutions w"
    unfolding same by simp
next
  assume "\<forall>key. ino (set_path_key_inode e (PT_REGS_PARM2 ctx) key 1) \<noteq> 0"
  then show "kprobe_security_inode_rmdir e ctx' tid (snd (kprobe_security_inode_rmdir e ctx tid w0)) =
      (0, snd (kprobe_security_inode_rmdir e ctx tid w0))"
    by (intro resolution_twice) simp
qed

theorem frozen_identity_returns_immediately_witness:
  "peek_syscall 7 [SYSCALL_RMDIR, SYSCALL_UNLINK] world_unlink = Some pending_unlink \<and>
   ino (path_key pending_unlink) = 200 \<and>
   kprobe_security_inode_rmdir env_A ctx_ok 7 world_unlink = (0, world_unlink) \<and>
   (\<forall>key. ino (set_path_key_inode env_A (PT_REGS_PARM2 ctx_ok) key 1) = 100) \<and>
   kprobe_security_inode_rmdir env_A ctx_ok 7
     (snd (kprobe_security_inode_rmdir env_A ctx_ok 7 world_fresh)) =
     (0, snd (kprobe_security_inode_rmdir env_A ctx_ok 7 world_fresh))"
proof -
  have peeked: "peek_syscall 7 [SYSCALL_RMDIR, SYSCALL_UNLINK] world_unlink = Some pending_unlink"
    by (simp add: peek_syscall_def world_unlink_def pending_unlink_def)
  have ino: "ino (path_key pending_unlink) = 200"
    by (simp add: pending_unlink_def)
  have resolves: "\<forall>key. ino (set_path_key_inode env_A (PT_REGS_PARM2 ctx_ok) key 1) = 100"
    by (simp add: env_A_def ctx_ok_def)
  show ?thesis
    using frozen_identity_returns_immediately [where tid = 7 and w = world_unlink
        and syscall = pending_unlink and e = env_A and ctx = ctx_ok and ctx' = ctx_ok
        and ?w0.0 = world_fresh]
      peeked ino resolves
    by simp
qed

section \<open>The flag of the invalidation at return\<close>

text \<open>
  C4, as amended. On every run of \<^verbatim>\<open>SYSCALL_KRETPROBE(rmdir)\<close> that pops a state and
  whose return code is not an unhandled error, the inode cache entry of the state's
  identity is invalidated once, and the flag passed is \<^verbatim>\<open>!enabled\<close> (line 122): 0 when
  the event was sent, 1 when it was not.
\<close>

theorem invalidation_flag_negates_enablement:
  assumes popped: "pop_syscall tid [SYSCALL_RMDIR, SYSCALL_UNLINK] w = (Some syscall, w1)"
    and ok: "\<not> IS_UNHANDLED_ERROR e (PT_REGS_RC ctx)"
  shows "(is_event_enabled e (EVENT_RMDIR e) \<noteq> 0 \<longrightarrow>
            length (events_sent (snd (SYSCALL_KRETPROBE_rmdir e ctx tid w))) =
              length (events_sent w) + 1 \<and>
            invalidations (snd (SYSCALL_KRETPROBE_rmdir e ctx tid w)) =
              invalidations w @ [(mount_id (path_key syscall), ino (path_key syscall), 0)]) \<and>
         (is_event_enabled e (EVENT_RMDIR e) = 0 \<longrightarrow>
            events_sent (snd (SYSCALL_KRETPROBE_rmdir e ctx tid w)) = events_sent w \<and>
            invalidations (snd (SYSCALL_KRETPROBE_rmdir e ctx tid w)) =
              invalidations w @ [(mount_id (path_key syscall), ino (path_key syscall), 1)])"
proof -
  have w1: "w1 = w\<lparr>syscalls := (syscalls w)(tid := None)\<rparr>"
    using pop_syscall_Some [OF popped] by simp
  show ?thesis
  proof (cases "is_event_enabled e (EVENT_RMDIR e) = 0")
    case True
    show ?thesis
      using True unfolding kretprobe_disabled [OF popped ok True] w1
      by (simp add: effect_defs observation_defs)
  next
    case False
    show ?thesis
      using False unfolding kretprobe_enabled [OF popped ok False] w1
      by (simp add: effect_defs observation_defs)
  qed
qed

theorem invalidation_flag_negates_enablement_witness:
  "pop_syscall 7 [SYSCALL_RMDIR, SYSCALL_UNLINK] world_A = (Some pending_A, world0) \<and>
   \<not> IS_UNHANDLED_ERROR env_A (PT_REGS_RC ctx_ok) \<and>
   is_event_enabled env_A (EVENT_RMDIR env_A) = 1 \<and>
   length (events_sent (snd (SYSCALL_KRETPROBE_rmdir env_A ctx_ok 7 world_A))) = 1 \<and>
   invalidations (snd (SYSCALL_KRETPROBE_rmdir env_A ctx_ok 7 world_A)) = [(5, 100, 0)] \<and>
   \<not> IS_UNHANDLED_ERROR env_off (PT_REGS_RC ctx_ok) \<and>
   is_event_enabled env_off (EVENT_RMDIR env_off) = 0 \<and>
   events_sent (snd (SYSCALL_KRETPROBE_rmdir env_off ctx_ok 7 world_A)) = [] \<and>
   invalidations (snd (SYSCALL_KRETPROBE_rmdir env_off ctx_ok 7 world_A)) = [(5, 100, 1)]"
proof -
  have popped: "pop_syscall 7 [SYSCALL_RMDIR, SYSCALL_UNLINK] world_A = (Some pending_A, world0)"
    by (simp add: pop_syscall_def fixture_defs)
  have ok: "\<not> IS_UNHANDLED_ERROR env_A (PT_REGS_RC ctx_ok)"
    and ok': "\<not> IS_UNHANDLED_ERROR env_off (PT_REGS_RC ctx_ok)"
    by (simp_all add: fixture_defs)
  have enabled: "is_event_enabled env_A (EVENT_RMDIR env_A) = 1"
    and disabled: "is_event_enabled env_off (EVENT_RMDIR env_off) = 0"
    by (simp_all add: fixture_defs)
  have start: "events_sent world_A = []" "invalidations world_A = []"
    "mount_id (path_key pending_A) = 5" "ino (path_key pending_A) = 100"
    by (simp_all add: observation_defs fixture_defs)
  show ?thesis
    using invalidation_flag_negates_enablement [OF popped ok]
      invalidation_flag_negates_enablement [OF popped ok'] popped ok ok' enabled disabled
    by (simp add: start)
qed

text \<open>
  The claim as stated has the flag true when an event was sent. In scenario A (directory
  removal of \<open>(mount 5, inode 100)\<close>, no filter, success, kind enabled) one event is sent
  and the flag is 0.
\<close>

theorem emitted_flag_counterexample:
  "events_sent (snd (SYSCALL_KRETPROBE_rmdir env_A ctx_ok 7 world_A)) =
     [(6, \<lparr>process = 0, container = 0, syscall_retval = 0,
           file = \<lparr>inode = 100, file_mount_id = 5, file_overlay_numlower = 0,
                   file_path_id = 1\<rparr>,
           discarder_revision = 1, padding = 0\<rparr>)] \<and>
   invalidations (snd (SYSCALL_KRETPROBE_rmdir env_A ctx_ok 7 world_A)) = [(5, 100, 0)]"
  by (simp add: probe_defs registry_defs effect_defs observation_defs fixture_defs)

section \<open>A state that was never resolved\<close>

text \<open>
  C5, as amended. If the entry probe created the state and the resolution probe never
  ran, the return probe's pop yields that state, its identity still unset, and the return
  probe handles it as any popped state: the state is removed, the inode cache is
  invalidated once for \<open>(mount 0, inode 0)\<close>, and an event is sent and the revision of
  mount 0 bumped exactly when the return code is not an unhandled error and the event
  kind is enabled.
\<close>

theorem unresolved_state_is_popped:
  assumes created: "syscalls w tid = None"
  shows "pop_syscall tid [SYSCALL_RMDIR, SYSCALL_UNLINK] (snd (SYSCALL_KPROBE0_rmdir e tid w)) =
           (Some \<lparr>policy = fetch_policy e (EVENT_RMDIR e), type = SYSCALL_RMDIR,
                  path_key = \<lparr>ino = 0, mount_id = 0, path_id = 0\<rparr>, overlay_numlower = 0\<rparr>, w) \<and>
         syscalls (snd (SYSCALL_KRETPROBE_rmdir e ctx tid (snd (SYSCALL_KPROBE0_rmdir e tid w)))) tid =
           None \<and>
         invalidations (snd (SYSCALL_KRETPROBE_rmdir e ctx tid (snd (SYSCALL_KPROBE0_rmdir e tid w)))) =
           invalidations w @
             [(0, 0, if IS_UNHANDLED_ERROR e (PT_REGS_RC ctx) \<or> is_event_enabled e (EVENT_RMDIR e) \<noteq> 0
                     then 0 else 1)] \<and>
         length (events_sent (snd (SYSCALL_KRETPROBE_rmdir e ctx tid (snd (SYSCALL_KPROBE0_rmdir e tid w))))) =
           length (events_sent w) +
             (if IS_UNHANDLED_ERROR e (PT_REGS_RC ctx) \<or> is_event_enabled e (EVENT_RMDIR e) = 0
              then 0 else 1) \<and>
         discarder_revisions (snd (SYSCALL_KRETPROBE_rmdir e ctx tid (snd (SYSCALL_KPROBE0_rmdir e tid w)))) =
           (if IS_UNHANDLED_ERROR e (PT_REGS_RC ctx) \<or> is_event_enabled e (EVENT_RMDIR e) = 0
            then discarder_revisions w
            else (discarder_revisions w)(0 := discarder_revisions w 0 + 1))"
proof -
  let ?fresh = "\<lparr>policy = fetch_policy e (EVENT_RMDIR e), type = SYSCALL_RMDIR,
                  path_key = \<lparr>ino = 0, mount_id = 0, path_id = 0\<rparr>, overlay_numlower = 0\<rparr>"
  let ?w1 = "snd (SYSCALL_KPROBE0_rmdir e tid w)"
  have popped: "pop_syscall tid [SYSCALL_RMDIR, SYSCALL_UNLINK] ?w1 = (Some ?fresh, w)"
    unfolding kprobe0_created [OF created] by (rule pop_stored [OF created]) simp
  have w1: "discarder_revisions ?w1 = discarder_revisions w" "calls ?w1 = calls w"
    unfolding kprobe0_created [OF created] by (simp_all add: store_syscall_def)
  consider (err) "IS_UNHANDLED_ERROR e (PT_REGS_RC ctx)"
    | (off) "\<not> IS_UNHANDLED_ERROR e (PT_REGS_RC ctx)" "is_event_enabled e (EVENT_RMDIR e) = 0"
    | (on) "\<not> IS_UNHANDLED_ERROR e (PT_REGS_RC ctx)" "is_event_enabled e (EVENT_RMDIR e) \<noteq> 0"
    by blast
  then have "syscalls (snd (SYSCALL_KRETPROBE_rmdir e ctx tid ?w1)) tid = None \<and>
         invalidations (snd (SYSCALL_KRETPROBE_rmdir e ctx tid ?w1)) =
           invalidations w @
             [(0, 0, if IS_UNHANDLED_ERROR e (PT_REGS_RC ctx) \<or> is_event_enabled e (EVENT_RMDIR e) \<noteq> 0
                     then 0 else 1)] \<and>
         length (events_sent (snd (SYSCALL_KRETPROBE_rmdir e ctx tid ?w1))) =
           length (events_sent w) +
             (if IS_UNHANDLED_ERROR e (PT_REGS_RC ctx) \<or> is_event_enabled e (EVENT_RMDIR e) = 0
              then 0 else 1) \<and>
         discarder_revisions (snd (SYSCALL_KRETPROBE_rmdir e ctx tid ?w1)) =
           (if IS_UNHANDLED_ERROR e (PT_REGS_RC ctx) \<or> is_event_enabled e (EVENT_RMDIR e) = 0
            then discarder_revisions w
            else (discarder_revisions w)(0 := discarder_revisions w 0 + 1))"
  proof cases
    case err
    show ?thesis
      using err created unfolding kretprobe_error [OF popped err]
      by (simp add: effect_defs observation_defs)
  next
    case off
    show ?thesis
      using off created unfolding kretprobe_disabled [OF popped off]
      by (simp add: effect_defs observation_defs)
  next
    case on
    show ?thesis
      using on created unfolding kretprobe_enabled [OF popped on] w1
      by (simp add: effect_defs observation_defs)
  qed
  with popped show ?thesis by blast
qed

theorem unresolved_state_is_popped_witness:
  "syscalls world0 7 = None \<and>
   pop_syscall 7 [SYSCALL_RMDIR, SYSCALL_UNLINK] (snd (SYSCALL_KPROBE0_rmdir env_A 7 world0)) =
     (Some \<lparr>policy = \<lparr>mode = NO_FILTER\<rparr>, type = SYSCALL_RMDIR,
            path_key = \<lparr>ino = 0, mount_id = 0, path_id = 0\<rparr>, overlay_numlower = 0\<rparr>, world0) \<and>
   syscalls (snd (SYSCALL_KRETPROBE_rmdir env_A ctx_ok 7 (snd (SYSCALL_KPROBE0_rmdir env_A 7 world0)))) 7 =
     None \<and>
   invalidations (snd (SYSCALL_KRETPROBE_rmdir env_A ctx_ok 7 (snd (SYSCALL_KPROBE0_rmdir env_A 7 world0)))) =
     [(0, 0, 0)] \<and>
   length (events_sent (snd (SYSCALL_KRETPROBE_rmdir env_A ctx_ok 7 (snd (SYSCALL_KPROBE0_rmdir env_A 7 world0))))) =
     1 \<and>
   discarder_revisions (snd (SYSCALL_KRETPROBE_rmdir env_A ctx_ok 7 (snd (SYSCALL_KPROBE0_rmdir env_A 7 world0)))) 0 =
     1"
proof -
  have created: "syscalls world0 7 = None"
    by (simp add: world0_def)
  have facts: "\<not> IS_UNHANDLED_ERROR env_A (PT_REGS_RC ctx_ok)"
    "is_event_enabled env_A (EVENT_RMDIR env_A) = 1"
    "fetch_policy env_A (EVENT_RMDIR env_A) = \<lparr>mode = NO_FILTER\<rparr>"
    "invalidations world0 = []" "events_sent world0 = []" "discarder_revisions world0 0 = 0"
    by (simp_all add: fixture_defs observation_defs)
  show ?thesis
    using unresolved_state_is_popped [OF created, of env_A ctx_ok] created
    by (simp add: facts)
qed

text \<open>
  The claim as stated has the pop yield none and the probe do nothing. In \<open>env_A\<close>, entry
  followed by a successful return pops the fresh state, sends an event with inode 0,
  bumps the revision of mount 0 and invalidates.
\<close>

theorem unresolved_state_counterexample:
  "fst (pop_syscall 7 [SYSCALL_RMDIR, SYSCALL_UNLINK] (snd (SYSCALL_KPROBE0_rmdir env_A 7 world0))) =
     Some \<lparr>policy = \<lparr>mode = NO_FILTER\<rparr>, type = SYSCALL_RMDIR,
           path_key = \<lparr>ino = 0, mount_id = 0, path_id = 0\<rparr>, overlay_numlower = 0\<rparr> \<and>
   calls (snd (SYSCALL_KRETPROBE_rmdir env_A ctx_ok 7 (snd (SYSCALL_KPROBE0_rmdir env_A 7 world0)))) =
     [Is_event_enabled 6,
      Send_event 6
        \<lparr>process = 0, container = 0, syscall_retval = 0,
         file = \<lparr>inode = 0, file_mount_id = 0, file_overlay_numlower = 0, file_path_id = 0\<rparr>,
         discarder_revision = 1, padding = 0\<rparr>,
      Invalidate_inode 0 0 0] \<and>
   discarder_revisions (snd (SYSCALL_KRETPROBE_rmdir env_A ctx_ok 7 (snd (SYSCALL_KPROBE0_rmdir env_A 7 world0)))) 0 =
     1"
  by (simp add: probe_defs registry_defs effect_defs fixture_defs)

section \<open>Error suppresses emission\<close>

text \<open>
  C6. When \<^verbatim>\<open>SYSCALL_KRETPROBE(rmdir)\<close> pops a state and the return code is an unhandled
  error, no event is sent, no discarder revision is bumped, and the inode cache entry of
  the state's identity is invalidated exactly once, with flag 0.
\<close>

theorem error_suppresses_emission:
  assumes popped: "pop_syscall tid [SYSCALL_RMDIR, SYSCALL_UNLINK] w = (Some syscall, w1)"
    and error: "IS_UNHANDLED_ERROR e (PT_REGS_RC ctx)"
  shows "events_sent (snd (SYSCALL_KRETPROBE_rmdir e ctx tid w)) = events_sent w \<and>
         discarder_revisions (snd (SYSCALL_KRETPROBE_rmdir e ctx tid w)) = discarder_revisions w \<and>
         invalidations (snd (SYSCALL_KRETPROBE_rmdir e ctx tid w)) =
           invalidations w @ [(mount_id (path_key syscall), ino (path_key syscall), 0)]"
proof -
  have w1: "w1 = w\<lparr>syscalls := (syscalls w)(tid := None)\<rparr>"
    using pop_syscall_Some [OF popped] by simp
  show ?thesis
    unfolding kretprobe_error [OF popped error] w1
    by (simp add: effect_defs observation_defs)
qed

theorem error_suppresses_emission_witness:
  "pop_syscall 7 [SYSCALL_RMDIR, SYSCALL_UNLINK] world_A = (Some pending_A, world0) \<and>
   IS_UNHANDLED_ERROR env_A (PT_REGS_RC ctx_err) \<and>
   events_sent (snd (SYSCALL_KRETPROBE_rmdir env_A ctx_err 7 world_A)) = [] \<and>
   discarder_revisions (snd (SYSCALL_KRETPROBE_rmdir env_A ctx_err 7 world_A)) = (\<lambda>mnt. 0) \<and>
   invalidations (snd (SYSCALL_KRETPROBE_rmdir env_A ctx_err 7 world_A)) = [(5, 100, 0)]"
proof -
  have popped: "pop_syscall 7 [SYSCALL_RMDIR, SYSCALL_UNLINK] world_A = (Some pending_A, world0)"
    by (simp add: pop_syscall_def fixture_defs)
  have error: "IS_UNHANDLED_ERROR env_A (PT_REGS_RC ctx_err)"
    by (simp add: fixture_defs)
  show ?thesis
    using error_suppresses_emission [OF popped error] popped error
    by (simp add: observation_defs fixture_defs)
qed

section \<open>Discarder revisions\<close>

lemma kprobe0_quiet:
  "discarder_revisions (snd (SYSCALL_KPROBE0_rmdir e tid w)) = discarder_revisions w \<and>
   events_sent (snd (SYSCALL_KPROBE0_rmdir e tid w)) = events_sent w"
  by (simp add: SYSCALL_KPROBE0_rmdir_def cache_syscall_def events_sent_def split: option.split)

lemma kprobe_quiet:
  "discarder_revisions (snd (kprobe_security_inode_rmdir e ctx tid w)) = discarder_revisions w \<and>
   events_sent (snd (kprobe_security_inode_rmdir e ctx tid w)) = events_sent w"
  by (simp add: kprobe_security_inode_rmdir_def registry_defs effect_defs events_sent_def
      split: option.split prod.split)

lemma kretprobe_effect:
  "(discarder_revisions (snd (SYSCALL_KRETPROBE_rmdir e ctx tid w)) = discarder_revisions w \<and>
    events_sent (snd (SYSCALL_KRETPROBE_rmdir e ctx tid w)) = events_sent w) \<or>
   (\<exists>mnt event.
      discarder_revisions (snd (SYSCALL_KRETPROBE_rmdir e ctx tid w)) =
        (discarder_revisions w)(mnt := discarder_revisions w mnt + 1) \<and>
      events_sent (snd (SYSCALL_KRETPROBE_rmdir e ctx tid w)) =
        events_sent w @ [(EVENT_RMDIR e, event)] \<and>
      file_mount_id (file event) = mnt \<and>
      discarder_revision event = discarder_revisions w mnt + 1)"
proof (cases "pop_syscall tid [SYSCALL_RMDIR, SYSCALL_UNLINK] w")
  case (Pair popped w1)
  show ?thesis
  proof (cases popped)
    case None
    show ?thesis
      using kretprobe_none [of tid w w1] Pair None by simp
  next
    case (Some syscall)
    have popped: "pop_syscall tid [SYSCALL_RMDIR, SYSCALL_UNLINK] w = (Some syscall, w1)"
      using Pair Some by simp
    have w1: "w1 = w\<lparr>syscalls := (syscalls w)(tid := None)\<rparr>"
      using pop_syscall_Some [OF popped] by simp
    consider (err) "IS_UNHANDLED_ERROR e (PT_REGS_RC ctx)"
      | (off) "\<not> IS_UNHANDLED_ERROR e (PT_REGS_RC ctx)" "is_event_enabled e (EVENT_RMDIR e) = 0"
      | (on) "\<not> IS_UNHANDLED_ERROR e (PT_REGS_RC ctx)" "is_event_enabled e (EVENT_RMDIR e) \<noteq> 0"
      by blast
    then show ?thesis
    proof cases
      case err
      show ?thesis
        unfolding kretprobe_error [OF popped err] w1
        by (simp add: effect_defs events_sent_def)
    next
      case off
      show ?thesis
        unfolding kretprobe_disabled [OF popped off] w1
        by (simp add: effect_defs events_sent_def)
    next
      case on
      show ?thesis
        unfolding kretprobe_enabled [OF popped on] w1
        by (simp add: effect_defs events_sent_def)
    qed
  qed
qed

lemma fire_effect:
  "(discarder_revisions (fire e tid p w) = discarder_revisions w \<and>
    events_sent (fire e tid p w) = events_sent w) \<or>
   (\<exists>mnt kind event.
      discarder_revisions (fire e tid p w) =
        (discarder_revisions w)(mnt := discarder_revisions w mnt + 1) \<and>
      events_sent (fire e tid p w) = events_sent w @ [(kind, event)] \<and>
      file_mount_id (file event) = mnt \<and>
      discarder_revision event = discarder_revisions w mnt + 1)"
proof (cases p)
  case Entry
  then show ?thesis using kprobe0_quiet [of e tid w] by (simp add: fire_def)
next
  case (Hook ctx)
  then show ?thesis using kprobe_quiet [of e ctx tid w] by (simp add: fire_def)
next
  case (Return ctx)
  then show ?thesis using kretprobe_effect [of e ctx tid w] by (auto simp: fire_def)
qed


lemma unat_succ_le:
  fixes x :: u32
  shows "unat (x + 1) \<le> unat x + 1"
  by (simp add: unat_word_ariths)



lemma started_wrap_free:
  assumes "unat (discarder_revisions w m) + length ps < 2 ^ 32"
  shows "no_wrap m ps w"
  using assms
proof (induction ps arbitrary: w)
  case Nil
  then show ?case by simp
next
  case (Cons step ps)
  obtain e tid p where step: "step = (e, tid, p)"
    by (cases step) auto
  have not_max: "discarder_revisions w m \<noteq> - 1"
  proof
    assume "discarder_revisions w m = - 1"
    then have "unat (discarder_revisions w m) = 2 ^ 32 - 1"
      by (simp add: unsigned_minus_1_eq_mask mask_eq_exp_minus_1)
    with Cons.prems show False by simp
  qed
  have "unat (discarder_revisions (fire e tid p w) m) \<le> unat (discarder_revisions w m) + 1"
    using fire_effect [of e tid p w] unat_succ_le [of "discarder_revisions w m"]
    by (auto split: if_splits)
  then have "unat (discarder_revisions (fire e tid p w) m) + length ps < 2 ^ 32"
    using Cons.prems by simp
  then have "no_wrap m ps (fire e tid p w)"
    by (rule Cons.IH)
  then show ?case
    using not_max unfolding step by simp
qed




section \<open>The path resolution call\<close>

text \<open>
  The call of lines 79-80 is made whenever the handle is not null.
\<close>

lemma path_resolution_for_handle:
  assumes peeked: "peek_syscall tid [SYSCALL_RMDIR, SYSCALL_UNLINK] w = Some syscall"
    and fresh: "ino (path_key syscall) = 0"
    and kind: "kind = (if type syscall = SYSCALL_RMDIR then EVENT_RMDIR e else EVENT_UNLINK e)"
    and key: "key = set_path_key_inode e (PT_REGS_PARM2 ctx) (path_key syscall) 1"
    and kept: "discarded_by_process e (mode (policy syscall)) kind = 0"
    and handle: "PT_REGS_PARM2 ctx \<noteq> NULL"
  shows "path_resolutions (snd (kprobe_security_inode_rmdir e ctx tid w)) =
           path_resolutions w @
             [(PT_REGS_PARM2 ctx, key, if mode (policy syscall) = NO_FILTER then 0 else kind)] \<and>
         (syscalls (snd (kprobe_security_inode_rmdir e ctx tid w)) tid = None \<or>
          (\<exists>syscall'. syscalls (snd (kprobe_security_inode_rmdir e ctx tid w)) tid = Some syscall' \<and>
                       path_key syscall' = key))"
proof -
  have ty: "type syscall = SYSCALL_RMDIR \<or> type syscall = SYSCALL_UNLINK"
    using peek_syscall_Some [OF peeked] by simp
  then show ?thesis
  proof
    assume rmdir: "type syscall = SYSCALL_RMDIR"
    show ?thesis
      using peeked fresh kept handle rmdir unfolding kind key
      by (simp add: kprobe_security_inode_rmdir_def resolve_switch_def pop_syscall_def
          store_syscall_def effect_defs observation_defs)
  next
    assume unlink: "type syscall = SYSCALL_UNLINK"
    show ?thesis
      using peeked fresh kept handle unlink unfolding kind key
      by (simp add: kprobe_security_inode_rmdir_def resolve_switch_def pop_syscall_def
          store_syscall_def effect_defs observation_defs)
  qed
qed

text \<open>
  C8. When the resolution probe resolves a fresh state (the inode was unset and is now
  frozen to a non-zero value) and the process discard filter does not discard it, the
  probe calls path resolution once, with the handle, the identity just frozen into the
  state, and an event kind that is the operation's when the filter mode is an active
  filter and zero when it is \<open>NO_FILTER\<close>. A null handle resolves nothing (the inode read
  from it is the unset 0), so a state that was resolved passes the guard of line 79.
\<close>

theorem path_resolution_call:
  assumes peeked: "peek_syscall tid [SYSCALL_RMDIR, SYSCALL_UNLINK] w = Some syscall"
    and fresh: "ino (path_key syscall) = 0"
    and kind: "kind = (if type syscall = SYSCALL_RMDIR then EVENT_RMDIR e else EVENT_UNLINK e)"
    and key: "key = set_path_key_inode e (PT_REGS_PARM2 ctx) (path_key syscall) 1"
    and resolved: "ino key \<noteq> 0"
    and null_resolves_nothing: "ino (set_path_key_inode e NULL (path_key syscall) 1) = 0"
    and kept: "discarded_by_process e (mode (policy syscall)) kind = 0"
  shows "path_resolutions (snd (kprobe_security_inode_rmdir e ctx tid w)) =
           path_resolutions w @
             [(PT_REGS_PARM2 ctx, key, if mode (policy syscall) = NO_FILTER then 0 else kind)] \<and>
         (syscalls (snd (kprobe_security_inode_rmdir e ctx tid w)) tid = None \<or>
          (\<exists>syscall'. syscalls (snd (kprobe_security_inode_rmdir e ctx tid w)) tid = Some syscall' \<and>
                       path_key syscall' = key))"
proof -
  have handle: "PT_REGS_PARM2 ctx \<noteq> NULL"
  proof
    assume "PT_REGS_PARM2 ctx = NULL"
    then have "ino key = 0"
      using null_resolves_nothing unfolding key by simp
    with resolved show False by simp
  qed
  show ?thesis
    by (rule path_resolution_for_handle [OF peeked fresh kind key kept handle])
qed

theorem path_resolution_call_witness:
  "peek_syscall 7 [SYSCALL_RMDIR, SYSCALL_UNLINK] world_fresh = Some pending_fresh \<and>
   ino (path_key pending_fresh) = 0 \<and>
   ino (set_path_key_inode env_A (PT_REGS_PARM2 ctx_ok) (path_key pending_fresh) 1) = 100 \<and>
   ino (set_path_key_inode env_A NULL (path_key pending_fresh) 1) = 0 \<and>
   discarded_by_process env_A (mode (policy pending_fresh)) 5 = 0 \<and>
   path_resolutions (snd (kprobe_security_inode_rmdir env_A ctx_ok 7 world_fresh)) =
     [(100, \<lparr>ino = 100, mount_id = 5, path_id = 1\<rparr>, 5)] \<and>
   syscalls (snd (kprobe_security_inode_rmdir env_A ctx_ok 7 world_fresh)) 7 =
     Some (pending_fresh\<lparr>path_key := \<lparr>ino = 100, mount_id = 5, path_id = 1\<rparr>\<rparr>)"
proof -
  have peeked: "peek_syscall 7 [SYSCALL_RMDIR, SYSCALL_UNLINK] world_fresh = Some pending_fresh"
    by (simp add: peek_syscall_def world_fresh_def pending_fresh_def)
  have fresh: "ino (path_key pending_fresh) = 0"
    by (simp add: pending_fresh_def)
  have kind: "5 = (if type pending_fresh = SYSCALL_RMDIR then EVENT_RMDIR env_A
                   else EVENT_UNLINK env_A)"
    by (simp add: pending_fresh_def env_A_def)
  have key: "\<lparr>ino = 100, mount_id = 5, path_id = 1\<rparr> =
      set_path_key_inode env_A (PT_REGS_PARM2 ctx_ok) (path_key pending_fresh) 1"
    by (simp add: pending_fresh_def env_A_def ctx_ok_def)
  have resolved: "ino \<lparr>ino = 100, mount_id = 5, path_id = 1\<rparr> \<noteq> 0"
    by simp
  have null_resolves_nothing:
    "ino (set_path_key_inode env_A NULL (path_key pending_fresh) 1) = 0"
    by (simp add: env_A_def NULL_def)
  have kept: "discarded_by_process env_A (mode (policy pending_fresh)) 5 = 0"
    by (simp add: env_A_def)
  have facts: "path_resolutions world_fresh = []" "mode (policy pending_fresh) \<noteq> NO_FILTER"
    "PT_REGS_PARM2 ctx_ok = 100"
    by (simp_all add: world_fresh_def pending_fresh_def observation_defs ctx_ok_def)
  have ino: "ino (set_path_key_inode env_A (PT_REGS_PARM2 ctx_ok) (path_key pending_fresh) 1) = 100"
    by (simp add: env_A_def ctx_ok_def)
  have stored: "syscalls (snd (kprobe_security_inode_rmdir env_A ctx_ok 7 world_fresh)) 7 =
      Some (pending_fresh\<lparr>path_key := \<lparr>ino = 100, mount_id = 5, path_id = 1\<rparr>\<rparr>)"
    by (simp add: probe_defs registry_defs effect_defs fixture_defs world_fresh_def
        pending_fresh_def)
  show ?thesis
    using path_resolution_call [OF peeked fresh kind key resolved null_resolves_nothing kept]
      peeked fresh null_resolves_nothing kept stored ino
    by (simp add: facts)
qed

section \<open>Return status\<close>

text \<open>
  C9. Each of the three probes returns 0 on every path, for every input and every state
  of the registry: untracked syscall, already resolved identity, discard and error return
  code all end in \<^verbatim>\<open>return 0\<close>.
\<close>

theorem probes_return_zero:
  "fst (SYSCALL_KPROBE0_rmdir e tid w) = 0 \<and>
   fst (kprobe_security_inode_rmdir e ctx tid w) = 0 \<and>
   fst (SYSCALL_KRETPROBE_rmdir e ctx tid w) = 0"
proof (intro conjI)
  show "fst (SYSCALL_KPROBE0_rmdir e tid w) = 0"
    by (simp add: SYSCALL_KPROBE0_rmdir_def)
  show "fst (kprobe_security_inode_rmdir e ctx tid w) = 0"
    by (simp add: kprobe_security_inode_rmdir_def Let_def split: option.split prod.split)
  show "fst (SYSCALL_KRETPROBE_rmdir e ctx tid w) = 0"
    by (simp add: SYSCALL_KRETPROBE_rmdir_def Let_def split: option.split prod.split)
qed

section \<open>The return probe and the kind tag\<close>

text \<open>
  C10. \<^verbatim>\<open>SYSCALL_KRETPROBE(rmdir)\<close> treats every popped state as a directory removal.
  Whether the pending state is tagged \<open>SYSCALL_RMDIR\<close> or \<open>SYSCALL_UNLINK\<close>, the probe
  does what it does for the same state tagged \<open>SYSCALL_RMDIR\<close>; the only kind whose
  enablement it checks is \<open>EVENT_RMDIR\<close>; and an event it sends is tagged \<open>EVENT_RMDIR\<close>
  and carries the state's identity and overlay depth.
\<close>

theorem exit_ignores_kind_tag:
  assumes pending: "syscalls w tid = Some syscall"
    and tracked: "type syscall = SYSCALL_RMDIR \<or> type syscall = SYSCALL_UNLINK"
  shows "SYSCALL_KRETPROBE_rmdir e ctx tid w =
           SYSCALL_KRETPROBE_rmdir e ctx tid
             (store_syscall tid (syscall\<lparr>type := SYSCALL_RMDIR\<rparr>) w) \<and>
         enablement_checks (snd (SYSCALL_KRETPROBE_rmdir e ctx tid w)) =
           enablement_checks w @
             (if IS_UNHANDLED_ERROR e (PT_REGS_RC ctx) then [] else [EVENT_RMDIR e]) \<and>
         (events_sent (snd (SYSCALL_KRETPROBE_rmdir e ctx tid w)) = events_sent w \<or>
          (\<exists>event. events_sent (snd (SYSCALL_KRETPROBE_rmdir e ctx tid w)) =
                      events_sent w @ [(EVENT_RMDIR e, event)] \<and>
                    file event = \<lparr>inode = ino (path_key syscall),
                                   file_mount_id = mount_id (path_key syscall),
                                   file_overlay_numlower = overlay_numlower syscall,
                                   file_path_id = path_id (path_key syscall)\<rparr>))"
proof -
  let ?w1 = "w\<lparr>syscalls := (syscalls w)(tid := None)\<rparr>"
  have popped: "pop_syscall tid [SYSCALL_RMDIR, SYSCALL_UNLINK] w = (Some syscall, ?w1)"
    using pending tracked by (auto simp: pop_syscall_def)
  have popped': "pop_syscall tid [SYSCALL_RMDIR, SYSCALL_UNLINK]
      (store_syscall tid (syscall\<lparr>type := SYSCALL_RMDIR\<rparr>) w) =
      (Some (syscall\<lparr>type := SYSCALL_RMDIR\<rparr>), ?w1)"
    by (simp add: pop_syscall_def store_syscall_def)
  have same: "SYSCALL_KRETPROBE_rmdir e ctx tid w =
      SYSCALL_KRETPROBE_rmdir e ctx tid (store_syscall tid (syscall\<lparr>type := SYSCALL_RMDIR\<rparr>) w)"
    unfolding SYSCALL_KRETPROBE_rmdir_def popped popped'
    by (simp add: bump_discarder_revision_def record_call_def Let_def)
  consider (err) "IS_UNHANDLED_ERROR e (PT_REGS_RC ctx)"
    | (off) "\<not> IS_UNHANDLED_ERROR e (PT_REGS_RC ctx)" "is_event_enabled e (EVENT_RMDIR e) = 0"
    | (on) "\<not> IS_UNHANDLED_ERROR e (PT_REGS_RC ctx)" "is_event_enabled e (EVENT_RMDIR e) \<noteq> 0"
    by blast
  then have rest: "enablement_checks (snd (SYSCALL_KRETPROBE_rmdir e ctx tid w)) =
           enablement_checks w @
             (if IS_UNHANDLED_ERROR e (PT_REGS_RC ctx) then [] else [EVENT_RMDIR e]) \<and>
         (events_sent (snd (SYSCALL_KRETPROBE_rmdir e ctx tid w)) = events_sent w \<or>
          (\<exists>event. events_sent (snd (SYSCALL_KRETPROBE_rmdir e ctx tid w)) =
                      events_sent w @ [(EVENT_RMDIR e, event)] \<and>
                    file event = \<lparr>inode = ino (path_key syscall),
                                   file_mount_id = mount_id (path_key syscall),
                                   file_overlay_numlower = overlay_numlower syscall,
                                   file_path_id = path_id (path_key syscall)\<rparr>))"
  proof cases
    case err
    show ?thesis
      using err unfolding kretprobe_error [OF popped err]
      by (simp add: effect_defs observation_defs)
  next
    case off
    show ?thesis
      using off unfolding kretprobe_disabled [OF popped off]
      by (simp add: effect_defs observation_defs)
  next
    case on
    show ?thesis
      using on unfolding kretprobe_enabled [OF popped on]
      by (simp add: effect_defs observation_defs)
  qed
  from same rest show ?thesis by blast
qed

theorem exit_ignores_kind_tag_witness:
  "syscalls world_unlink 7 = Some pending_unlink \<and>
   type pending_unlink = SYSCALL_UNLINK \<and>
   SYSCALL_KRETPROBE_rmdir env_A ctx_ok 7 world_unlink =
     SYSCALL_KRETPROBE_rmdir env_A ctx_ok 7
       (store_syscall 7 (pending_unlink\<lparr>type := SYSCALL_RMDIR\<rparr>) world_unlink) \<and>
   enablement_checks (snd (SYSCALL_KRETPROBE_rmdir env_A ctx_ok 7 world_unlink)) = [6] \<and>
   map fst (events_sent (snd (SYSCALL_KRETPROBE_rmdir env_A ctx_ok 7 world_unlink))) = [6] \<and>
   map (file \<circ> snd) (events_sent (snd (SYSCALL_KRETPROBE_rmdir env_A ctx_ok 7 world_unlink))) =
     [\<lparr>inode = 200, file_mount_id = 5, file_overlay_numlower = 2, file_path_id = 1\<rparr>]"
proof -
  have pending: "syscalls world_unlink 7 = Some pending_unlink"
    by (simp add: world_unlink_def)
  have tracked: "type pending_unlink = SYSCALL_RMDIR \<or> type pending_unlink = SYSCALL_UNLINK"
    by (simp add: pending_unlink_def)
  have ev: "events_sent world_unlink = []" "enablement_checks world_unlink = []"
    by (simp_all add: world_unlink_def observation_defs)
  have ok: "\<not> IS_UNHANDLED_ERROR env_A (PT_REGS_RC ctx_ok)" "EVENT_RMDIR env_A = 6"
    by (simp_all add: fixture_defs)
  have sent: "length (events_sent (snd (SYSCALL_KRETPROBE_rmdir env_A ctx_ok 7 world_unlink))) = 1"
    by (simp add: probe_defs registry_defs effect_defs observation_defs fixture_defs
        world_unlink_def pending_unlink_def)
  show ?thesis
    using exit_ignores_kind_tag [OF pending tracked, of env_A ctx_ok] pending sent
    by (auto simp: ev ok pending_unlink_def)
qed

end
